theory Spec2Isabelle
  imports Complex_Main
begin

section \<open>Values exchanged with the libraries\<close>

text \<open>
  The handler of \<^verbatim>\<open>app.py\<close> does no arithmetic of its own on floating-point numbers: it
  classifies them (\<^verbatim>\<open>np.isnan\<close>, \<^verbatim>\<open>np.isinf\<close>) and compares a magnitude with
  \<^verbatim>\<open>1e6\<close>. A double is therefore modelled by the real number it denotes, or by one of the
  three special values; rounding belongs to the libraries and is not modelled.
\<close>

datatype pyfloat = Finite real | PosInf | NegInf | NaN

text \<open>
  An element of a NumPy array that a lambdified expression returns: a float, or a complex
  number (expressions containing the imaginary unit evaluate to complex arrays).
\<close>

datatype scalar = Flt pyfloat | Cplx pyfloat pyfloat

text \<open>
  A NumPy value: a 0-dimensional one (a bare number, which is what a lambdified constant
  expression returns, and what \<^verbatim>\<open>np.where\<close> returns for it) or a 1-dimensional array.
\<close>

datatype ndarray = Arr0 scalar | Arr1 "scalar list"

text \<open>A Python exception; \<^verbatim>\<open>str(e)\<close> is its message.\<close>

datatype exn = Exn string

fun message :: "exn \<Rightarrow> string" where
  "message (Exn s) = s"

text \<open>A name between single quotes, as Python's messages print it.\<close>

definition quoted :: "string \<Rightarrow> string" where
  "quoted s = CHR 0x27 # s @ [CHR 0x27]"

text \<open>A JSON value of the request body, as far as the handler distinguishes them.\<close>

datatype jval = JNull | JNum real | JStr string | JOther

section \<open>NumPy's elementwise primitives\<close>

fun np_isnan :: "pyfloat \<Rightarrow> bool" where
  "np_isnan NaN = True"
| "np_isnan _ = False"

fun np_isinf :: "pyfloat \<Rightarrow> bool" where
  "np_isinf PosInf = True"
| "np_isinf NegInf = True"
| "np_isinf _ = False"

text \<open>The modulus of a complex number, with C's rule that an infinite part wins over NaN.\<close>

definition hypot :: "pyfloat \<Rightarrow> pyfloat \<Rightarrow> pyfloat" where
  "hypot a b =
     (if np_isinf a \<or> np_isinf b then PosInf
      else case (a, b) of
             (Finite u, Finite v) \<Rightarrow> Finite (sqrt (u * u + v * v))
           | _ \<Rightarrow> NaN)"

fun np_abs :: "scalar \<Rightarrow> pyfloat" where
  "np_abs (Flt (Finite r)) = Finite \<bar>r\<bar>"
| "np_abs (Flt PosInf) = PosInf"
| "np_abs (Flt NegInf) = PosInf"
| "np_abs (Flt NaN) = NaN"
| "np_abs (Cplx a b) = hypot a b"

text \<open>\<^verbatim>\<open>v > 1e6\<close>: every comparison with NaN is false.\<close>

fun gt_1e6 :: "pyfloat \<Rightarrow> bool" where
  "gt_1e6 (Finite r) = (r > 1000000)"
| "gt_1e6 PosInf = True"
| "gt_1e6 NegInf = False"
| "gt_1e6 NaN = False"

text \<open>\<^verbatim>\<open>np.nan\<close> cast to the element type of the array it is written into.\<close>

fun nan_like :: "scalar \<Rightarrow> scalar" where
  "nan_like (Flt _) = Flt NaN"
| "nan_like (Cplx _ _) = Cplx NaN (Finite 0)"

text \<open>
  One element of \<^verbatim>\<open>np.where(np.abs(y) > 1e6, np.nan, y)\<close> (lines 109, 129, 158).
\<close>

definition clamp_elem :: "scalar \<Rightarrow> scalar" where
  "clamp_elem s = (if gt_1e6 (np_abs s) then nan_like s else s)"

text \<open>\<^verbatim>\<open>np.where\<close> keeps the shape: a 0-dimensional value stays 0-dimensional.\<close>

fun clamp :: "ndarray \<Rightarrow> ndarray" where
  "clamp (Arr0 s) = Arr0 (clamp_elem s)"
| "clamp (Arr1 ys) = Arr1 (map clamp_elem ys)"

section \<open>The array sanitizer\<close>

text \<open>
  One element of the list comprehension of line 38:
  \<^verbatim>\<open>None if (isinstance(x, float) and (np.isnan(x) or np.isinf(x))) else x\<close>.
\<close>

fun clean_elem :: "scalar \<Rightarrow> scalar option" where
  "clean_elem (Flt v) = (if np_isnan v \<or> np_isinf v then None else Some (Flt v))"
| "clean_elem (Cplx a b) = Some (Cplx a b)"

text \<open>
  \<^verbatim>\<open>clean_array_for_json\<close> (lines 24-38). \<^verbatim>\<open>arr.tolist()\<close> of a 0-dimensional array is a
  bare number, and iterating over it raises \<^verbatim>\<open>TypeError\<close>.
\<close>

fun clean_array_for_json :: "ndarray \<Rightarrow> exn + scalar option list" where
  "clean_array_for_json (Arr0 (Flt _)) =
     Inl (Exn (quoted ''float'' @ '' object is not iterable''))"
| "clean_array_for_json (Arr0 (Cplx _ _)) =
     Inl (Exn (quoted ''complex'' @ '' object is not iterable''))"
| "clean_array_for_json (Arr1 xs) = Inr (map clean_elem xs)"

section \<open>The libraries the handler calls\<close>

text \<open>
  SymPy, NumPy's \<^verbatim>\<open>linspace\<close> and Python's \<^verbatim>\<open>float\<close> are not part of the repository:
  the handler is verified for every behaviour of them. Each call that can raise returns
  \<open>Inl\<close> of the exception. \<open>'e\<close> is the type of SymPy expressions (a symbol is one). A
  lambdified expression is a function from a NumPy value to a NumPy value that can raise
  when it is called.
\<close>

record 'e engine =
  symbol :: "jval \<Rightarrow> exn + 'e"
    \<comment> \<open>\<^verbatim>\<open>sp.Symbol(variable_str)\<close>\<close>
  parse_expr :: "jval \<Rightarrow> jval \<Rightarrow> 'e \<Rightarrow> exn + 'e"
    \<comment> \<open>\<^verbatim>\<open>parse_expr(function_str, local_dict={variable_str: x}, transformations=...)\<close>\<close>
  integrate :: "'e \<Rightarrow> 'e \<Rightarrow> exn + 'e"
    \<comment> \<open>\<^verbatim>\<open>sp.integrate(function, x)\<close>\<close>
  integrate_between :: "'e \<Rightarrow> 'e \<Rightarrow> pyfloat \<Rightarrow> pyfloat \<Rightarrow> exn + 'e"
    \<comment> \<open>\<^verbatim>\<open>sp.integrate(function, (x, lower, upper))\<close>\<close>
  lambdify :: "'e \<Rightarrow> 'e \<Rightarrow> exn + (ndarray \<Rightarrow> exn + ndarray)"
    \<comment> \<open>\<^verbatim>\<open>sp.lambdify(x, expr, modules=['numpy'])\<close>\<close>
  latex :: "'e \<Rightarrow> exn + string"
  str :: "'e \<Rightarrow> exn + string"
  float_of_expr :: "'e \<Rightarrow> exn + pyfloat"
    \<comment> \<open>\<^verbatim>\<open>float(expr)\<close> on a SymPy expression\<close>
  float_of_json :: "jval \<Rightarrow> exn + pyfloat"
    \<comment> \<open>\<^verbatim>\<open>float(v)\<close> on a value of the request body\<close>
  linspace :: "pyfloat \<Rightarrow> pyfloat \<Rightarrow> nat \<Rightarrow> pyfloat list"
    \<comment> \<open>\<^verbatim>\<open>np.linspace(start, stop, num)\<close>, always a 1-dimensional float array\<close>

section \<open>The response\<close>

record points =
  px :: "scalar option list"
  py :: "scalar option list"

record response =
  integral :: string
  integral_text :: string
  function_points :: "points option"
  integral_points :: "points option"
  definite_value :: "pyfloat option"
  area_points :: "points option"

text \<open>
  The two dictionaries the handler passes to \<^verbatim>\<open>jsonify\<close>: the one of lines 169-177
  (\<^verbatim>\<open>success: True\<close>) and the one of lines 184-187 (\<^verbatim>\<open>success: False\<close>).
\<close>

datatype body = Success response | Failure string

type_synonym http = "nat \<times> body"

fun success :: "http \<Rightarrow> bool" where
  "success (_, Success _) = True"
| "success (_, Failure _) = False"

fun error :: "http \<Rightarrow> string option" where
  "error (_, Success _) = None"
| "error (_, Failure m) = Some m"

fun status :: "http \<Rightarrow> nat" where
  "status (c, _) = c"

fun field :: "(response \<Rightarrow> 'a option) \<Rightarrow> http \<Rightarrow> 'a option" where
  "field sel (_, Success r) = sel r"
| "field sel (_, Failure _) = None"

text \<open>
  Flask's \<^verbatim>\<open>jsonify\<close>: the JSON encoder writes floats (also NaN and Infinity), null and
  strings, and raises \<^verbatim>\<open>TypeError\<close> on a complex number; the response it builds has
  status 200. The \<open>x\<close> lists only ever hold floats.
\<close>

fun json_number :: "scalar option \<Rightarrow> bool" where
  "json_number None = True"
| "json_number (Some (Flt _)) = True"
| "json_number (Some (Cplx _ _)) = False"

fun json_points :: "points option \<Rightarrow> bool" where
  "json_points None = True"
| "json_points (Some p) = (list_all json_number (px p) \<and> list_all json_number (py p))"

definition serializable :: "response \<Rightarrow> bool" where
  "serializable r \<longleftrightarrow>
     json_points (function_points r) \<and> json_points (integral_points r) \<and>
     json_points (area_points r)"

fun jsonify :: "body \<Rightarrow> exn + http" where
  "jsonify (Failure m) = Inr (200, Failure m)"
| "jsonify (Success r) =
     (if serializable r then Inr (200, Success r)
      else Inl (Exn ''Object of type complex is not JSON serializable''))"

section \<open>The request handler\<close>

text \<open>
  What \<^verbatim>\<open>request.json\<close> gives the handler: a dictionary, or an exception (raised by
  \<^verbatim>\<open>request.json\<close> itself, or by \<^verbatim>\<open>data.get\<close> when the body is not a JSON object).
\<close>

datatype payload = Malformed exn | Dict "string \<rightharpoonup> jval"

definition dict_get :: "(string \<rightharpoonup> jval) \<Rightarrow> string \<Rightarrow> jval \<Rightarrow> jval" where
  "dict_get data k dflt = (case data k of None \<Rightarrow> dflt | Some v \<Rightarrow> v)"

text \<open>
  Lines 75-78: the four fields of the request with their defaults, and line 98: the grid
  on which the function and its antiderivative are sampled.
\<close>

definition x_vals :: "'e engine \<Rightarrow> pyfloat list" where
  "x_vals L = linspace L (Finite (- 10)) (Finite 10) 200"

definition function_str :: "(string \<rightharpoonup> jval) \<Rightarrow> jval" where
  "function_str data = dict_get data ''function'' (JStr '''')"

definition variable_str :: "(string \<rightharpoonup> jval) \<Rightarrow> jval" where
  "variable_str data = dict_get data ''variable'' (JStr ''x'')"

definition lower_limit :: "(string \<rightharpoonup> jval) \<Rightarrow> jval" where
  "lower_limit data = dict_get data ''lower_limit'' JNull"

definition upper_limit :: "(string \<rightharpoonup> jval) \<Rightarrow> jval" where
  "upper_limit data = dict_get data ''upper_limit'' JNull"

text \<open>
  The body of the three inner \<^verbatim>\<open>try\<close> blocks that build a series (lines 105-116,
  126-135 and 156-163): evaluate, clamp, sanitize \<open>x\<close> then \<open>y\<close>. In the first two, any
  exception leaves the series \<^verbatim>\<open>None\<close> (lines 117-119, 136-138).
\<close>

definition sample_points :: "(ndarray \<Rightarrow> exn + ndarray) \<Rightarrow> pyfloat list \<Rightarrow> exn + points" where
  "sample_points f xs =
     (case f (Arr1 (map Flt xs)) of
        Inl e \<Rightarrow> Inl e
      | Inr y_vals \<Rightarrow>
          (case clean_array_for_json (Arr1 (map Flt xs)) of
             Inl e \<Rightarrow> Inl e
           | Inr cx \<Rightarrow>
               (case clean_array_for_json (clamp y_vals) of
                  Inl e \<Rightarrow> Inl e
                | Inr cy \<Rightarrow> Inr \<lparr>px = cx, py = cy\<rparr>)))"

definition try_points :: "(ndarray \<Rightarrow> exn + ndarray) \<Rightarrow> pyfloat list \<Rightarrow> points option" where
  "try_points f xs = (case sample_points f xs of Inl e \<Rightarrow> None | Inr p \<Rightarrow> Some p)"

text \<open>
  Lines 148-153, the first statements of the \<^verbatim>\<open>try\<close> block of the definite integral:
  both bounds through \<^verbatim>\<open>float\<close>, the definite integral, and \<^verbatim>\<open>float\<close> of its value.
  The result is the two bounds and the value, or the first exception.
\<close>

definition definite_integral ::
  "'e engine \<Rightarrow> 'e \<Rightarrow> 'e \<Rightarrow> jval \<Rightarrow> jval \<Rightarrow> exn + (pyfloat \<times> pyfloat \<times> pyfloat)" where
  "definite_integral L fn x lo up =
     (case float_of_json L lo of
        Inl e \<Rightarrow> Inl e
      | Inr lower \<Rightarrow>
          (case float_of_json L up of
             Inl e \<Rightarrow> Inl e
           | Inr upper \<Rightarrow>
               (case integrate_between L fn x lower upper of
                  Inl e \<Rightarrow> Inl e
                | Inr v \<Rightarrow>
                    (case float_of_expr L v of
                       Inl e \<Rightarrow> Inl e
                     | Inr d \<Rightarrow> Inr (lower, upper, d)))))"

text \<open>
  Lines 142-166. \<^verbatim>\<open>definite_value\<close> is assigned (line 153) before the area series is
  built, so an exception in lines 156-163 leaves \<^verbatim>\<open>definite_value\<close> set and
  \<^verbatim>\<open>area_points\<close> \<^verbatim>\<open>None\<close>; an exception in lines 148-153 leaves both \<^verbatim>\<open>None\<close>.
\<close>

definition definite_part ::
  "'e engine \<Rightarrow> (ndarray \<Rightarrow> exn + ndarray) \<Rightarrow> 'e \<Rightarrow> 'e \<Rightarrow> jval \<Rightarrow> jval
     \<Rightarrow> pyfloat option \<times> points option" where
  "definite_part L f_lambdified fn x lo up =
     (if lo \<noteq> JNull \<and> up \<noteq> JNull then
        (case definite_integral L fn x lo up of
           Inl e \<Rightarrow> (None, None)
         | Inr (lower, upper, d) \<Rightarrow>
             (Some d, try_points f_lambdified (linspace L lower upper 100)))
      else (None, None))"

text \<open>
  Lines 75-177: everything inside the outer \<^verbatim>\<open>try\<close> up to the response dictionary.
  \<^verbatim>\<open>sp.lambdify\<close> (lines 102, 123), \<^verbatim>\<open>sp.latex\<close> and \<^verbatim>\<open>str\<close> are called outside the
  inner \<^verbatim>\<open>try\<close> blocks, so an exception of theirs reaches the outer handler.
\<close>

definition build_response :: "'e engine \<Rightarrow> (string \<rightharpoonup> jval) \<Rightarrow> exn + response" where
  "build_response L data =
     (case symbol L (variable_str data) of
        Inl e \<Rightarrow> Inl e
      | Inr x \<Rightarrow>
     (case parse_expr L (function_str data) (variable_str data) x of
        Inl e \<Rightarrow> Inl e
      | Inr fn \<Rightarrow>
     (case integrate L fn x of
        Inl e \<Rightarrow> Inl e
      | Inr integ \<Rightarrow>
     (case lambdify L x fn of
        Inl e \<Rightarrow> Inl e
      | Inr f_lambdified \<Rightarrow>
     (case lambdify L x integ of
        Inl e \<Rightarrow> Inl e
      | Inr integral_lambdified \<Rightarrow>
     (case latex L integ of
        Inl e \<Rightarrow> Inl e
      | Inr ltx \<Rightarrow>
     (case str L integ of
        Inl e \<Rightarrow> Inl e
      | Inr txt \<Rightarrow>
          Inr \<lparr>integral = ltx, integral_text = txt,
               function_points = try_points f_lambdified (x_vals L),
               integral_points = try_points integral_lambdified (x_vals L),
               definite_value =
                 fst (definite_part L f_lambdified fn x (lower_limit data) (upper_limit data)),
               area_points =
                 snd (definite_part L f_lambdified fn x (lower_limit data) (upper_limit data))\<rparr>
     )))))))"

text \<open>
  \<^verbatim>\<open>calculate\<close> (lines 49-187): the outer \<^verbatim>\<open>try\<close> also covers \<^verbatim>\<open>jsonify(response)\<close>
  (line 180); the handler of lines 182-187 answers any exception with its message.
\<close>

definition calculate :: "'e engine \<Rightarrow> payload \<Rightarrow> http" where
  "calculate L req =
     (let attempt =
            (case req of
               Malformed e \<Rightarrow> Inl e
             | Dict data \<Rightarrow>
                 (case build_response L data of
                    Inl e \<Rightarrow> Inl e
                  | Inr r \<Rightarrow> jsonify (Success r)))
      in case attempt of
           Inl e \<Rightarrow> (200, Failure (message e))
         | Inr h \<Rightarrow> h)"

section \<open>Conditions on the libraries\<close>

text \<open>
  Every library call that the handler makes outside its inner \<^verbatim>\<open>try\<close> blocks returns:
  the symbol \<open>x\<close>, the parsed expression \<open>fn\<close>, its antiderivative \<open>integ\<close>, the two
  lambdified functions \<open>f\<close> and \<open>g\<close>, and the two renderings of the antiderivative.
\<close>

definition prepared ::
  "'e engine \<Rightarrow> (string \<rightharpoonup> jval) \<Rightarrow> 'e \<Rightarrow> 'e \<Rightarrow> 'e \<Rightarrow>
     (ndarray \<Rightarrow> exn + ndarray) \<Rightarrow> (ndarray \<Rightarrow> exn + ndarray) \<Rightarrow> string \<Rightarrow> string \<Rightarrow> bool" where
  "prepared L data x fn integ f g ltx txt \<longleftrightarrow>
     symbol L (variable_str data) = Inr x \<and>
     parse_expr L (function_str data) (variable_str data) x = Inr fn \<and>
     integrate L fn x = Inr integ \<and>
     lambdify L x fn = Inr f \<and>
     lambdify L x integ = Inr g \<and>
     latex L integ = Inr ltx \<and>
     str L integ = Inr txt"

fun is_float :: "scalar \<Rightarrow> bool" where
  "is_float (Flt _) = True"
| "is_float (Cplx _ _) = False"

fun float_array :: "ndarray \<Rightarrow> bool" where
  "float_array (Arr0 s) = is_float s"
| "float_array (Arr1 ys) = list_all is_float ys"

text \<open>A lambdified function that only ever returns floats.\<close>

definition real_valued :: "(ndarray \<Rightarrow> exn + ndarray) \<Rightarrow> bool" where
  "real_valued f \<longleftrightarrow> (\<forall>a y. f a = Inr y \<longrightarrow> float_array y)"

text \<open>
  NumPy's shapes: \<^verbatim>\<open>linspace(a, b, n)\<close> has \<open>n\<close> elements, and a lambdified function
  that returns a 1-dimensional array for a 1-dimensional argument returns one of the same
  length (it computes elementwise).
\<close>

definition elementwise :: "'e engine \<Rightarrow> bool" where
  "elementwise L \<longleftrightarrow>
     (\<forall>a b n. length (linspace L a b n) = n) \<and>
     (\<forall>x e f xs ys. lambdify L x e = Inr f \<longrightarrow> f (Arr1 xs) = Inr (Arr1 ys)
        \<longrightarrow> length ys = length xs)"

text \<open>
  The clamp law for one series, in the words of the specification (not part of the
  program): \<open>ys\<close> are the evaluated values and \<open>cy\<close> the \<open>y\<close> list of the response. Every
  evaluated value is a float; the entry at its position is null exactly when the value is
  NaN, infinite or of magnitude above \<open>10\<^sup>6\<close>, and is the value itself otherwise.
\<close>

definition clamped_entries :: "scalar list \<Rightarrow> scalar option list \<Rightarrow> bool" where
  "clamped_entries ys cy \<longleftrightarrow>
     length cy = length ys \<and>
     (\<forall>i < length ys. \<exists>w. ys ! i = Flt w \<and>
        (cy ! i = None \<longleftrightarrow>
           w = NaN \<or> w = PosInf \<or> w = NegInf \<or> (\<exists>v. w = Finite v \<and> \<bar>v\<bar> > 1000000)) \<and>
        (cy ! i \<noteq> None \<longrightarrow> cy ! i = Some (Flt w)))"

section \<open>A small engine for the examples\<close>

text \<open>
  A finite table of library answers, used to run the handler on concrete requests. A SymPy
  expression is represented by its text (\<^verbatim>\<open>str\<close>). The answers on the listed inputs follow
  SymPy, NumPy and Python; anything outside the table raises.
\<close>

definition backslash :: char where
  "backslash = CHR 0x5C"

definition not_in_table :: "exn + 'a" where
  "not_in_table = Inl (Exn ''not in the table'')"

text \<open>
  A function on floats from its values on the reals, at \<open>+\<infinity>\<close> and at \<open>-\<infinity>\<close>; NaN
  propagates.
\<close>

fun lift :: "(real \<Rightarrow> pyfloat) \<Rightarrow> pyfloat \<Rightarrow> pyfloat \<Rightarrow> pyfloat \<Rightarrow> pyfloat" where
  "lift h p n (Finite r) = h r"
| "lift h p n PosInf = p"
| "lift h p n NegInf = n"
| "lift h p n NaN = NaN"

text \<open>
  A NumPy expression in \<open>x\<close> applied to a float array computes elementwise; the generated
  code of a constant expression ignores its argument and returns the bare constant.
\<close>

fun vectorized :: "(pyfloat \<Rightarrow> pyfloat) \<Rightarrow> ndarray \<Rightarrow> exn + ndarray" where
  "vectorized h (Arr0 (Flt v)) = Inr (Arr0 (Flt (h v)))"
| "vectorized h (Arr1 xs) =
     (if list_all is_float xs
      then Inr (Arr1 (map (\<lambda>s. case s of Flt v \<Rightarrow> Flt (h v) | Cplx a b \<Rightarrow> s) xs))
      else not_in_table)"
| "vectorized h _ = not_in_table"

definition const_fn :: "real \<Rightarrow> ndarray \<Rightarrow> exn + ndarray" where
  "const_fn c a = Inr (Arr0 (Flt (Finite c)))"

definition table_symbol :: "jval \<Rightarrow> exn + string" where
  "table_symbol v = (case v of JStr s \<Rightarrow> Inr s | _ \<Rightarrow> Inl (Exn ''name should be a string''))"

definition table_parse_expr :: "jval \<Rightarrow> jval \<Rightarrow> string \<Rightarrow> exn + string" where
  "table_parse_expr txt var x =
     (if txt = JStr ''5'' then Inr ''5''
      else if txt = JStr ''2x+3'' then Inr ''2*x + 3''
      else if txt = JStr ''x**2'' then Inr ''x**2''
      else if txt = JStr ''1/x**2'' then Inr ''x**(-2)''
      else if txt = JStr ''200000*x'' then Inr ''200000*x''
      else if txt = JStr ''I'' then Inr ''I''
      else if txt = JStr ''x**'' then Inl (Exn ''invalid syntax (<string>, line 1)'')
      else if txt = JStr '''' then Inl (Exn ''invalid syntax (<string>, line 0)'')
      else not_in_table)"

definition table_integrate :: "string \<Rightarrow> string \<Rightarrow> exn + string" where
  "table_integrate fn x =
     (if x \<noteq> ''x'' then not_in_table
      else if fn = ''5'' then Inr ''5*x''
      else if fn = ''2*x + 3'' then Inr ''x**2 + 3*x''
      else if fn = ''x**2'' then Inr ''x**3/3''
      else if fn = ''x**(-2)'' then Inr ''-1/x''
      else if fn = ''200000*x'' then Inr ''100000*x**2''
      else if fn = ''I'' then Inr ''I*x''
      else not_in_table)"

definition table_integrate_between ::
  "string \<Rightarrow> string \<Rightarrow> pyfloat \<Rightarrow> pyfloat \<Rightarrow> exn + string" where
  "table_integrate_between fn x lower upper =
     (if x \<noteq> ''x'' then not_in_table
      else if fn = ''5'' \<and> lower = Finite 0 \<and> upper = Finite 2 then Inr ''10.0000000000000''
      else if fn = ''2*x + 3'' \<and> lower = Finite 0 \<and> upper = Finite 2
        then Inr ''10.0000000000000''
      else if fn = ''x**(-2)'' \<and> lower = Finite 0 \<and> upper = Finite 1 then Inr ''oo''
      else not_in_table)"

text \<open>The NumPy functions that \<^verbatim>\<open>sp.lambdify\<close> generates for the expressions of the table.\<close>

definition f_constant :: "ndarray \<Rightarrow> exn + ndarray" where
  "f_constant = const_fn 5"

definition g_constant :: "ndarray \<Rightarrow> exn + ndarray" where
  "g_constant = vectorized (lift (\<lambda>r. Finite (5 * r)) PosInf NegInf)"

definition f_linear :: "ndarray \<Rightarrow> exn + ndarray" where
  "f_linear = vectorized (lift (\<lambda>r. Finite (2 * r + 3)) PosInf NegInf)"

definition g_linear :: "ndarray \<Rightarrow> exn + ndarray" where
  "g_linear = vectorized (lift (\<lambda>r. Finite (r * r + 3 * r)) PosInf NaN)"

definition f_square :: "ndarray \<Rightarrow> exn + ndarray" where
  "f_square = vectorized (lift (\<lambda>r. Finite (r * r)) PosInf PosInf)"

definition g_square :: "ndarray \<Rightarrow> exn + ndarray" where
  "g_square = vectorized (lift (\<lambda>r. Finite (r * r * r / 3)) PosInf NegInf)"

definition f_pole :: "ndarray \<Rightarrow> exn + ndarray" where
  "f_pole = vectorized
     (lift (\<lambda>r. if r = 0 then PosInf else Finite (1 / (r * r))) (Finite 0) (Finite 0))"

definition g_pole :: "ndarray \<Rightarrow> exn + ndarray" where
  "g_pole = vectorized
     (lift (\<lambda>r. if r = 0 then NegInf else Finite (- 1 / r)) (Finite 0) (Finite 0))"

definition f_steep :: "ndarray \<Rightarrow> exn + ndarray" where
  "f_steep = vectorized (lift (\<lambda>r. Finite (200000 * r)) PosInf NegInf)"

definition g_steep :: "ndarray \<Rightarrow> exn + ndarray" where
  "g_steep = vectorized (lift (\<lambda>r. Finite (100000 * (r * r))) PosInf PosInf)"

text \<open>
  The imaginary unit: the generated code of the constant returns the bare \<^verbatim>\<open>1j\<close>, and
  \<^verbatim>\<open>1j*x\<close> on a float array is a complex array.
\<close>

definition f_imaginary :: "ndarray \<Rightarrow> exn + ndarray" where
  "f_imaginary a = Inr (Arr0 (Cplx (Finite 0) (Finite 1)))"

fun times_i :: "scalar \<Rightarrow> scalar" where
  "times_i (Flt (Finite r)) = Cplx (Finite 0) (Finite r)"
| "times_i (Flt v) = Cplx NaN v"
| "times_i (Cplx a b) = Cplx a b"

fun g_imaginary :: "ndarray \<Rightarrow> exn + ndarray" where
  "g_imaginary (Arr1 xs) =
     (if list_all is_float xs then Inr (Arr1 (map times_i xs)) else not_in_table)"
| "g_imaginary (Arr0 s) = (if is_float s then Inr (Arr0 (times_i s)) else not_in_table)"

definition table_lambdify :: "string \<Rightarrow> string \<Rightarrow> exn + (ndarray \<Rightarrow> exn + ndarray)" where
  "table_lambdify x e =
     (if x \<noteq> ''x'' then not_in_table
      else if e = ''5'' then Inr f_constant
      else if e = ''5*x'' then Inr g_constant
      else if e = ''2*x + 3'' then Inr f_linear
      else if e = ''x**2 + 3*x'' then Inr g_linear
      else if e = ''x**2'' then Inr f_square
      else if e = ''x**3/3'' then Inr g_square
      else if e = ''x**(-2)'' then Inr f_pole
      else if e = ''-1/x'' then Inr g_pole
      else if e = ''200000*x'' then Inr f_steep
      else if e = ''100000*x**2'' then Inr g_steep
      else if e = ''I'' then Inr f_imaginary
      else if e = ''I*x'' then Inr g_imaginary
      else not_in_table)"

definition table_latex :: "string \<Rightarrow> exn + string" where
  "table_latex e =
     (if e = ''5*x'' then Inr ''5 x''
      else if e = ''x**2 + 3*x'' then Inr ''x^{2} + 3 x''
      else if e = ''I*x'' then Inr ''i x''
      else if e = ''x**3/3'' then Inr (backslash # ''frac{x^{3}}{3}'')
      else if e = ''-1/x'' then Inr (''- '' @ backslash # ''frac{1}{x}'')
      else if e = ''100000*x**2'' then Inr ''100000 x^{2}''
      else not_in_table)"

definition table_float_of_expr :: "string \<Rightarrow> exn + pyfloat" where
  "table_float_of_expr v =
     (if v = ''10.0000000000000'' then Inr (Finite 10)
      else if v = ''oo'' then Inr PosInf
      else Inl (Exn ''Cannot convert expression to float''))"

definition table_float_of_json :: "jval \<Rightarrow> exn + pyfloat" where
  "table_float_of_json v =
     (case v of
        JNum r \<Rightarrow> Inr (Finite r)
      | JStr s \<Rightarrow>
          (if s = ''0'' then Inr (Finite 0)
           else if s = ''1'' then Inr (Finite 1)
           else if s = ''2'' then Inr (Finite 2)
           else Inl (Exn (''could not convert string to float: '' @ quoted s)))
      | _ \<Rightarrow> Inl (Exn ''float() argument must be a string or a real number''))"

text \<open>
  \<^verbatim>\<open>np.linspace\<close> in exact arithmetic for finite bounds (NumPy rounds each point to a
  double); NaN everywhere otherwise, which the examples do not use.
\<close>

definition table_linspace :: "pyfloat \<Rightarrow> pyfloat \<Rightarrow> nat \<Rightarrow> pyfloat list" where
  "table_linspace a b n =
     (case (a, b) of
        (Finite u, Finite v) \<Rightarrow>
          map (\<lambda>i. Finite (u + real i * ((v - u) / real (n - 1)))) [0..<n]
      | _ \<Rightarrow> replicate n NaN)"

definition table :: "string engine" where
  "table = \<lparr>symbol = table_symbol, parse_expr = table_parse_expr,
            integrate = table_integrate, integrate_between = table_integrate_between,
            lambdify = table_lambdify, latex = table_latex, str = Inr,
            float_of_expr = table_float_of_expr, float_of_json = table_float_of_json,
            linspace = table_linspace\<rparr>"

text \<open>The requests of the examples.\<close>

definition req_constant :: "string \<rightharpoonup> jval" where
  "req_constant = [''function'' \<mapsto> JStr ''5'', ''lower_limit'' \<mapsto> JStr ''0'',
                   ''upper_limit'' \<mapsto> JStr ''2'']"

definition req_linear :: "string \<rightharpoonup> jval" where
  "req_linear = [''function'' \<mapsto> JStr ''2x+3'', ''lower_limit'' \<mapsto> JStr ''0'',
                 ''upper_limit'' \<mapsto> JStr ''2'']"

definition req_bad_bound :: "string \<rightharpoonup> jval" where
  "req_bad_bound = [''function'' \<mapsto> JStr ''2x+3'', ''lower_limit'' \<mapsto> JStr ''a'',
                    ''upper_limit'' \<mapsto> JStr ''2'']"

definition req_square :: "string \<rightharpoonup> jval" where
  "req_square = [''function'' \<mapsto> JStr ''x**2'']"

definition req_pole :: "string \<rightharpoonup> jval" where
  "req_pole = [''function'' \<mapsto> JStr ''1/x**2'', ''lower_limit'' \<mapsto> JStr ''0'',
               ''upper_limit'' \<mapsto> JStr ''1'']"

definition req_steep :: "string \<rightharpoonup> jval" where
  "req_steep = [''function'' \<mapsto> JStr ''200000*x'']"

definition req_five :: "string \<rightharpoonup> jval" where
  "req_five = [''function'' \<mapsto> JStr ''5'']"

definition req_imaginary :: "string \<rightharpoonup> jval" where
  "req_imaginary = [''function'' \<mapsto> JStr ''I'']"

definition req_malformed :: "string \<rightharpoonup> jval" where
  "req_malformed = [''function'' \<mapsto> JStr ''x**'']"

definition req_no_function :: "string \<rightharpoonup> jval" where
  "req_no_function = [''variable'' \<mapsto> JStr ''x'']"

section \<open>Theorems\<close>

subsection \<open>The steps of the handler\<close>

lemma sample_points_Inr_iff:
  "sample_points f xs = Inr p \<longleftrightarrow>
     (\<exists>ys. f (Arr1 (map Flt xs)) = Inr (Arr1 ys) \<and>
           p = \<lparr>px = map clean_elem (map Flt xs), py = map (\<lambda>s. clean_elem (clamp_elem s)) ys\<rparr>)"
proof (cases "f (Arr1 (map Flt xs))")
  case (Inl e)
  then show ?thesis by (simp add: sample_points_def)
next
  case (Inr y)
  show ?thesis
  proof (cases y)
    case (Arr0 s)
    with Inr show ?thesis by (cases s) (auto simp: sample_points_def clamp_elem_def)
  next
    case (Arr1 ys)
    with Inr show ?thesis by (auto simp: sample_points_def)
  qed
qed

lemma try_points_Some_iff:
  "try_points f xs = Some p \<longleftrightarrow>
     (\<exists>ys. f (Arr1 (map Flt xs)) = Inr (Arr1 ys) \<and>
           p = \<lparr>px = map clean_elem (map Flt xs), py = map (\<lambda>s. clean_elem (clamp_elem s)) ys\<rparr>)"
  unfolding try_points_def sample_points_Inr_iff [symmetric]
  by (simp split: sum.splits)

lemma try_points_None_iff:
  "try_points f xs = None \<longleftrightarrow> (\<exists>e. sample_points f xs = Inl e)"
  by (simp add: try_points_def split: sum.splits)

lemma build_response_prepared:
  assumes "prepared L data x fn integ f g ltx txt"
  shows "build_response L data =
           Inr \<lparr>integral = ltx, integral_text = txt,
                function_points = try_points f (x_vals L),
                integral_points = try_points g (x_vals L),
                definite_value = fst (definite_part L f fn x (lower_limit data) (upper_limit data)),
                area_points = snd (definite_part L f fn x (lower_limit data) (upper_limit data))\<rparr>"
  using assms by (simp add: prepared_def build_response_def)

lemma build_response_InrD:
  assumes "build_response L data = Inr r"
  shows "\<exists>x fn integ f g.
           prepared L data x fn integ f g (integral r) (integral_text r) \<and>
           function_points r = try_points f (x_vals L) \<and>
           integral_points r = try_points g (x_vals L) \<and>
           definite_value r = fst (definite_part L f fn x (lower_limit data) (upper_limit data)) \<and>
           area_points r = snd (definite_part L f fn x (lower_limit data) (upper_limit data))"
  using assms unfolding build_response_def prepared_def
  by (auto split: sum.splits)

lemma calculate_Success_iff:
  "calculate L req = (c, Success r) \<longleftrightarrow>
     c = 200 \<and> (\<exists>data. req = Dict data \<and> build_response L data = Inr r \<and> serializable r)"
  by (cases req) (auto simp: calculate_def split: sum.splits)

lemma calculate_Dict:
  "calculate L (Dict data) =
     (case build_response L data of
        Inl e \<Rightarrow> (200, Failure (message e))
      | Inr r \<Rightarrow> if serializable r then (200, Success r)
                 else (200, Failure ''Object of type complex is not JSON serializable''))"
  by (simp add: calculate_def split: sum.splits)

lemma definite_part_cases:
  "(definite_part L f fn x lo up = (None, None) \<and>
      (lo = JNull \<or> up = JNull \<or> (\<exists>e. definite_integral L fn x lo up = Inl e))) \<or>
   (lo \<noteq> JNull \<and> up \<noteq> JNull \<and>
      (\<exists>lower upper d. definite_integral L fn x lo up = Inr (lower, upper, d) \<and>
         definite_part L f fn x lo up = (Some d, try_points f (linspace L lower upper 100))))"
  by (auto simp: definite_part_def split: sum.splits)

subsection \<open>Real-valued functions serialize\<close>

lemma json_number_clean_clamp_float: "json_number (clean_elem (clamp_elem (Flt v)))"
  by (cases v) (simp_all add: clamp_elem_def)

lemma json_number_clean_float: "json_number (clean_elem (Flt v))"
  by (cases v) simp_all

lemma json_points_try_points:
  assumes "real_valued f"
  shows "json_points (try_points f xs)"
proof (cases "try_points f xs")
  case None
  then show ?thesis by simp
next
  case (Some p)
  then obtain ys where ev: "f (Arr1 (map Flt xs)) = Inr (Arr1 ys)"
    and p: "p = \<lparr>px = map clean_elem (map Flt xs), py = map (\<lambda>s. clean_elem (clamp_elem s)) ys\<rparr>"
    unfolding try_points_Some_iff by blast
  from assms ev have fl: "list_all is_float ys"
    unfolding real_valued_def by fastforce
  have "json_number (clean_elem (clamp_elem s))" if "is_float s" for s
    using that by (cases s) (simp_all add: json_number_clean_clamp_float)
  with fl have "list_all json_number (map (\<lambda>s. clean_elem (clamp_elem s)) ys)"
    by (simp add: list_all_iff)
  moreover have "list_all json_number (map clean_elem (map Flt xs))"
    by (induction xs) (simp_all add: json_number_clean_float del: clean_elem.simps)
  ultimately show ?thesis using Some p by simp
qed

lemma json_points_definite_part:
  assumes "real_valued f"
  shows "json_points (snd (definite_part L f fn x lo up))"
  using definite_part_cases [of L f fn x lo up] json_points_try_points [OF assms]
  by auto

lemma calculate_prepared:
  assumes "prepared L data x fn integ f g ltx txt" and "real_valued f" and "real_valued g"
  shows "calculate L (Dict data) =
           (200, Success \<lparr>integral = ltx, integral_text = txt,
                function_points = try_points f (x_vals L),
                integral_points = try_points g (x_vals L),
                definite_value = fst (definite_part L f fn x (lower_limit data) (upper_limit data)),
                area_points = snd (definite_part L f fn x (lower_limit data) (upper_limit data))\<rparr>)"
  unfolding calculate_Dict build_response_prepared [OF assms(1)]
  using json_points_try_points [OF assms(2)] json_points_try_points [OF assms(3)]
    json_points_definite_part [OF assms(2)]
  by (simp add: serializable_def)

subsection \<open>The table\<close>

lemma vectorized_floats:
  "vectorized h (Arr1 (map Flt xs)) = Inr (Arr1 (map (\<lambda>v. Flt (h v)) xs))"
  by (simp add: list_all_iff comp_def)

lemma vectorized_keeps_floats:
  "list_all is_float xs \<Longrightarrow>
     list_all is_float (map (\<lambda>s. case s of Flt v \<Rightarrow> Flt (h v) | Cplx a b \<Rightarrow> s) xs)"
  by (induction xs) (auto split: scalar.splits)

lemma real_valued_vectorized: "real_valued (vectorized h)"
  unfolding real_valued_def
proof (intro allI impI)
  fix a y assume "vectorized h a = Inr y"
  then show "float_array y"
    by (cases "(h, a)" rule: vectorized.cases)
       (auto simp: not_in_table_def vectorized_keeps_floats split: if_splits)
qed

lemma real_valued_const_fn: "real_valued (const_fn c)"
  by (simp add: real_valued_def const_fn_def)

lemma length_table_linspace: "length (table_linspace a b n) = n"
  by (simp add: table_linspace_def split: pyfloat.splits)

lemma table_linspace_nth:
  "i < n \<Longrightarrow> table_linspace (Finite u) (Finite v) n ! i
     = Finite (u + real i * ((v - u) / real (n - 1)))"
  by (simp add: table_linspace_def)

lemma vectorized_length:
  "vectorized h (Arr1 xs) = Inr (Arr1 ys) \<Longrightarrow> length ys = length xs"
  by (auto simp: not_in_table_def split: if_splits)

lemma elementwise_table: "elementwise table"
  unfolding elementwise_def
proof (intro conjI allI impI)
  fix a b n show "length (linspace table a b n) = n"
    by (simp add: table_def length_table_linspace)
next
  fix x e f xs ys
  assume "lambdify table x e = Inr f" and "f (Arr1 xs) = Inr (Arr1 ys)"
  then show "length ys = length xs"
    by (auto simp: table_def table_lambdify_def not_in_table_def
        f_constant_def g_constant_def f_linear_def g_linear_def f_square_def g_square_def
        f_pole_def g_pole_def f_steep_def g_steep_def const_fn_def f_imaginary_def
        split: if_splits dest: vectorized_length)
qed

subsection \<open>The handler on the requests of the examples\<close>

lemmas request_defs =
  variable_str_def function_str_def lower_limit_def upper_limit_def dict_get_def

lemmas table_defs =
  table_def table_symbol_def table_parse_expr_def table_integrate_def
  table_integrate_between_def table_lambdify_def table_latex_def table_float_of_expr_def
  table_float_of_json_def not_in_table_def

lemma prepared_constant:
  "prepared table req_constant ''x'' ''5'' ''5*x'' f_constant g_constant ''5 x'' ''5*x''"
  by (simp add: prepared_def req_constant_def request_defs table_defs)

lemma prepared_linear:
  "prepared table req_linear ''x'' ''2*x + 3'' ''x**2 + 3*x'' f_linear g_linear
     ''x^{2} + 3 x'' ''x**2 + 3*x''"
  by (simp add: prepared_def req_linear_def request_defs table_defs)

lemma prepared_bad_bound:
  "prepared table req_bad_bound ''x'' ''2*x + 3'' ''x**2 + 3*x'' f_linear g_linear
     ''x^{2} + 3 x'' ''x**2 + 3*x''"
  by (simp add: prepared_def req_bad_bound_def request_defs table_defs)

lemma prepared_square:
  "prepared table req_square ''x'' ''x**2'' ''x**3/3'' f_square g_square
     (backslash # ''frac{x^{3}}{3}'') ''x**3/3''"
  by (simp add: prepared_def req_square_def request_defs table_defs)

lemma prepared_pole:
  "prepared table req_pole ''x'' ''x**(-2)'' ''-1/x'' f_pole g_pole
     (''- '' @ backslash # ''frac{1}{x}'') ''-1/x''"
  by (simp add: prepared_def req_pole_def request_defs table_defs)

lemma prepared_steep:
  "prepared table req_steep ''x'' ''200000*x'' ''100000*x**2'' f_steep g_steep
     ''100000 x^{2}'' ''100000*x**2''"
  by (simp add: prepared_def req_steep_def request_defs table_defs)

lemma prepared_five:
  "prepared table req_five ''x'' ''5'' ''5*x'' f_constant g_constant ''5 x'' ''5*x''"
  by (simp add: prepared_def req_five_def request_defs table_defs)

lemma real_valued_functions:
  "real_valued f_constant" "real_valued g_constant" "real_valued f_linear"
  "real_valued g_linear" "real_valued f_square" "real_valued g_square"
  "real_valued f_pole" "real_valued g_pole" "real_valued f_steep" "real_valued g_steep"
  by (simp_all add: f_constant_def g_constant_def f_linear_def g_linear_def f_square_def
      g_square_def f_pole_def g_pole_def f_steep_def g_steep_def
      real_valued_vectorized real_valued_const_fn)

lemma definite_integral_constant:
  "definite_integral table ''5'' ''x'' (lower_limit req_constant) (upper_limit req_constant)
     = Inr (Finite 0, Finite 2, Finite 10)"
  by (simp add: definite_integral_def req_constant_def request_defs table_defs)

lemma definite_integral_linear:
  "definite_integral table ''2*x + 3'' ''x'' (lower_limit req_linear) (upper_limit req_linear)
     = Inr (Finite 0, Finite 2, Finite 10)"
  by (simp add: definite_integral_def req_linear_def request_defs table_defs)

lemma definite_integral_bad_bound:
  "definite_integral table ''2*x + 3'' ''x'' (lower_limit req_bad_bound)
     (upper_limit req_bad_bound)
       = Inl (Exn (''could not convert string to float: '' @ quoted ''a''))"
  by (simp add: definite_integral_def req_bad_bound_def request_defs table_defs)

lemma definite_integral_pole:
  "definite_integral table ''x**(-2)'' ''x'' (lower_limit req_pole) (upper_limit req_pole)
     = Inr (Finite 0, Finite 1, PosInf)"
  by (simp add: definite_integral_def req_pole_def request_defs table_defs)

lemma limits_supplied:
  "lower_limit req_constant \<noteq> JNull" "upper_limit req_constant \<noteq> JNull"
  "lower_limit req_linear \<noteq> JNull" "upper_limit req_linear \<noteq> JNull"
  "lower_limit req_bad_bound \<noteq> JNull" "upper_limit req_bad_bound \<noteq> JNull"
  "lower_limit req_pole \<noteq> JNull" "upper_limit req_pole \<noteq> JNull"
  by (simp_all add: req_constant_def req_linear_def req_bad_bound_def req_pole_def request_defs)

lemma try_points_vectorized:
  "try_points (vectorized h) xs =
     Some \<lparr>px = map clean_elem (map Flt xs),
           py = map (\<lambda>s. clean_elem (clamp_elem s)) (map (\<lambda>v. Flt (h v)) xs)\<rparr>"
  unfolding try_points_Some_iff vectorized_floats by simp

lemma try_points_const_fn: "try_points (const_fn c) xs = None"
  by (simp add: try_points_def sample_points_def const_fn_def clamp_elem_def)

lemma calculate_constant:
  "calculate table (Dict req_constant) =
     (200, Success \<lparr>integral = ''5 x'', integral_text = ''5*x'',
        function_points = None,
        integral_points = try_points g_constant (x_vals table),
        definite_value = Some (Finite 10), area_points = None\<rparr>)"
  unfolding calculate_prepared [OF prepared_constant real_valued_functions(1,2)]
  by (simp add: definite_part_def limits_supplied definite_integral_constant
      f_constant_def try_points_const_fn)

lemma calculate_linear:
  "calculate table (Dict req_linear) =
     (200, Success \<lparr>integral = ''x^{2} + 3 x'', integral_text = ''x**2 + 3*x'',
        function_points = try_points f_linear (x_vals table),
        integral_points = try_points g_linear (x_vals table),
        definite_value = Some (Finite 10),
        area_points = try_points f_linear (linspace table (Finite 0) (Finite 2) 100)\<rparr>)"
  unfolding calculate_prepared [OF prepared_linear real_valued_functions(3,4)]
  by (simp add: definite_part_def limits_supplied definite_integral_linear)

lemma calculate_pole:
  "calculate table (Dict req_pole) =
     (200, Success \<lparr>integral = ''- '' @ backslash # ''frac{1}{x}'', integral_text = ''-1/x'',
        function_points = try_points f_pole (x_vals table),
        integral_points = try_points g_pole (x_vals table),
        definite_value = Some PosInf,
        area_points = try_points f_pole (linspace table (Finite 0) (Finite 1) 100)\<rparr>)"
  unfolding calculate_prepared [OF prepared_pole real_valued_functions(7,8)]
  by (simp add: definite_part_def limits_supplied definite_integral_pole)

subsection \<open>The sanitizer\<close>

text \<open>
  Claim C4. For every sequence of floating-point numbers, the sanitizer returns a sequence
  of the same length; an element of the result is null exactly when the input element at
  that position is NaN, +Infinity or -Infinity, and every other element is the input
  element itself, at the same position.
\<close>

theorem clean_array_for_json_floats:
  "\<exists>ys. clean_array_for_json (Arr1 (map Flt xs)) = Inr ys \<and> length ys = length xs \<and>
     (\<forall>i < length xs.
        (ys ! i = None \<longleftrightarrow> xs ! i = NaN \<or> xs ! i = PosInf \<or> xs ! i = NegInf) \<and>
        (ys ! i \<noteq> None \<longrightarrow> ys ! i = Some (Flt (xs ! i))))"
proof -
  have "(clean_elem (Flt v) = None \<longleftrightarrow> v = NaN \<or> v = PosInf \<or> v = NegInf) \<and>
        (clean_elem (Flt v) \<noteq> None \<longrightarrow> clean_elem (Flt v) = Some (Flt v))" for v
    by (cases v) simp_all
  then show ?thesis by simp
qed

theorem clean_array_for_json_floats_witness:
  "\<exists>ys. clean_array_for_json (Arr1 (map Flt [Finite 1.5, NaN, PosInf, Finite (- 2), NegInf]))
          = Inr ys \<and>
        length ys = 5 \<and> ys ! 0 = Some (Flt (Finite 1.5)) \<and> ys ! 1 = None \<and> ys ! 2 = None \<and>
        ys ! 3 = Some (Flt (Finite (- 2))) \<and> ys ! 4 = None"
proof -
  let ?xs = "[Finite 1.5, NaN, PosInf, Finite (- 2), NegInf]"
  from clean_array_for_json_floats [of ?xs] obtain ys where
    eq: "clean_array_for_json (Arr1 (map Flt ?xs)) = Inr ys" and
    len: "length ys = length ?xs" and
    at: "\<forall>i < length ?xs.
          (ys ! i = None \<longleftrightarrow> ?xs ! i = NaN \<or> ?xs ! i = PosInf \<or> ?xs ! i = NegInf) \<and>
          (ys ! i \<noteq> None \<longrightarrow> ys ! i = Some (Flt (?xs ! i)))"
    by blast
  from at [rule_format, of 0] have y0: "ys ! 0 = Some (Flt (Finite 1.5))" by simp
  from at [rule_format, of 1] have y1: "ys ! 1 = None" by simp
  from at [rule_format, of 2] have y2: "ys ! 2 = None" by simp
  from at [rule_format, of 3] have y3: "ys ! 3 = Some (Flt (Finite (- 2)))" by simp
  from at [rule_format, of 4] have y4: "ys ! 4 = None" by simp
  from eq len y0 y1 y2 y3 y4 show ?thesis by simp
qed

subsection \<open>The clamp\<close>

lemma clamped_entry:
  assumes "json_number (clean_elem (clamp_elem s))"
  shows "\<exists>w. s = Flt w \<and>
           (clean_elem (clamp_elem s) = None \<longleftrightarrow>
              w = NaN \<or> w = PosInf \<or> w = NegInf \<or> (\<exists>v. w = Finite v \<and> \<bar>v\<bar> > 1000000)) \<and>
           (clean_elem (clamp_elem s) \<noteq> None \<longrightarrow> clean_elem (clamp_elem s) = Some (Flt w))"
proof (cases s)
  case (Flt w)
  then show ?thesis by (cases w) (simp_all add: clamp_elem_def)
next
  case (Cplx a b)
  with assms show ?thesis by (simp add: clamp_elem_def split: if_splits)
qed

lemma clamped_entries_json:
  assumes "list_all json_number (map (\<lambda>s. clean_elem (clamp_elem s)) ys)"
  shows "clamped_entries ys (map (\<lambda>s. clean_elem (clamp_elem s)) ys)"
  unfolding clamped_entries_def
proof (intro conjI allI impI)
  show "length (map (\<lambda>s. clean_elem (clamp_elem s)) ys) = length ys" by simp
next
  fix i assume i: "i < length ys"
  with assms have "json_number (clean_elem (clamp_elem (ys ! i)))"
    by (simp add: list_all_length)
  from clamped_entry [OF this] i
  show "\<exists>w. ys ! i = Flt w \<and>
          (map (\<lambda>s. clean_elem (clamp_elem s)) ys ! i = None \<longleftrightarrow>
             w = NaN \<or> w = PosInf \<or> w = NegInf \<or> (\<exists>v. w = Finite v \<and> \<bar>v\<bar> > 1000000)) \<and>
          (map (\<lambda>s. clean_elem (clamp_elem s)) ys ! i \<noteq> None \<longrightarrow>
             map (\<lambda>s. clean_elem (clamp_elem s)) ys ! i = Some (Flt w))"
    by simp
qed

lemma clamped_try_points:
  assumes "try_points f xs = Some p" and "list_all json_number (py p)"
  shows "\<exists>ys. f (Arr1 (map Flt xs)) = Inr (Arr1 ys) \<and> clamped_entries ys (py p)"
proof -
  from assms(1) obtain ys where
    ev: "f (Arr1 (map Flt xs)) = Inr (Arr1 ys)" and
    p: "p = \<lparr>px = map clean_elem (map Flt xs), py = map (\<lambda>s. clean_elem (clamp_elem s)) ys\<rparr>"
    unfolding try_points_Some_iff by blast
  from p assms(2) have "clamped_entries ys (py p)"
    using clamped_entries_json [of ys] by simp
  with ev show ?thesis by blast
qed

lemma prepared_unique:
  assumes "prepared L data x fn integ f g ltx plain"
      and "prepared L data x' fn' integ' f' g' ltx' plain'"
  shows "x' = x \<and> fn' = fn \<and> integ' = integ \<and> f' = f \<and> g' = g"
  using assms by (auto simp: prepared_def)

lemma calculate_steep:
  "calculate table (Dict req_steep) =
     (200, Success \<lparr>integral = ''100000 x^{2}'', integral_text = ''100000*x**2'',
        function_points = try_points f_steep (x_vals table),
        integral_points = try_points g_steep (x_vals table),
        definite_value = None, area_points = None\<rparr>)"
  unfolding calculate_prepared [OF prepared_steep real_valued_functions(9,10)]
  by (simp add: definite_part_def req_steep_def request_defs)

lemma calculate_five:
  "calculate table (Dict req_five) =
     (200, Success \<lparr>integral = ''5 x'', integral_text = ''5*x'',
        function_points = None,
        integral_points = try_points g_constant (x_vals table),
        definite_value = None, area_points = None\<rparr>)"
  unfolding calculate_prepared [OF prepared_five real_valued_functions(1,2)]
  by (simp add: definite_part_def req_five_def request_defs f_constant_def try_points_const_fn)

lemma steep_values:
  assumes "f_steep (Arr1 (map Flt (x_vals table))) = Inr (Arr1 ys)"
  shows "length ys = 200 \<and> ys ! 199 = Flt (Finite 2000000) \<and>
         ys ! 100 = Flt (Finite (2000000 / 199))"
proof -
  have "f_steep (Arr1 (map Flt (x_vals table)))
          = Inr (Arr1 (map (\<lambda>v. Flt (lift (\<lambda>r. Finite (200000 * r)) PosInf NegInf v))
                        (x_vals table)))"
    by (simp only: f_steep_def vectorized_floats)
  with assms have
    "ys = map (\<lambda>v. Flt (lift (\<lambda>r. Finite (200000 * r)) PosInf NegInf v)) (x_vals table)"
    by simp
  then show ?thesis
    by (simp add: x_vals_def table_def length_table_linspace table_linspace_nth)
qed

text \<open>
  Claim C3. In every success response, each series that is present (\<open>function_points\<close>,
  \<open>integral_points\<close>, \<open>area_points\<close>) obeys the clamp law on the values that the lambdified
  function returns on the grid of that series: every evaluated value is a float, the
  \<open>y\<close> entry at its position is null exactly when the value is NaN, infinite or of
  magnitude above \<open>10\<^sup>6\<close>, and it is the value itself otherwise. So every evaluated value
  of magnitude above \<open>10\<^sup>6\<close> appears as null, and no entry is a number of magnitude above
  \<open>10\<^sup>6\<close>. This holds for every behaviour of the libraries: a series with a complex entry
  never reaches a success response, because \<^verbatim>\<open>jsonify\<close> raises on it.
\<close>

theorem clamp_law:
  assumes "calculate L (Dict data) = (c, Success r)"
  shows "\<exists>x fn integ f g.
           prepared L data x fn integ f g (integral r) (integral_text r) \<and>
           (\<forall>p. function_points r = Some p \<longrightarrow>
              (\<exists>ys. f (Arr1 (map Flt (x_vals L))) = Inr (Arr1 ys) \<and>
                    clamped_entries ys (py p))) \<and>
           (\<forall>p. integral_points r = Some p \<longrightarrow>
              (\<exists>ys. g (Arr1 (map Flt (x_vals L))) = Inr (Arr1 ys) \<and>
                    clamped_entries ys (py p))) \<and>
           (\<forall>p. area_points r = Some p \<longrightarrow>
              (\<exists>lower upper d ys.
                 definite_integral L fn x (lower_limit data) (upper_limit data)
                   = Inr (lower, upper, d) \<and>
                 f (Arr1 (map Flt (linspace L lower upper 100))) = Inr (Arr1 ys) \<and>
                 clamped_entries ys (py p)))"
proof -
  from assms have br: "build_response L data = Inr r" and ser: "serializable r"
    unfolding calculate_Success_iff by auto
  from build_response_InrD [OF br] obtain x fn integ f g where
    prep: "prepared L data x fn integ f g (integral r) (integral_text r)" and
    fp: "function_points r = try_points f (x_vals L)" and
    ip: "integral_points r = try_points g (x_vals L)" and
    ap: "area_points r = snd (definite_part L f fn x (lower_limit data) (upper_limit data))"
    by blast
  have one: "\<exists>ys. f (Arr1 (map Flt (x_vals L))) = Inr (Arr1 ys) \<and> clamped_entries ys (py p)"
    if "function_points r = Some p" for p
  proof -
    from ser that have "list_all json_number (py p)" by (simp add: serializable_def)
    with that fp show ?thesis by (simp add: clamped_try_points)
  qed
  have two: "\<exists>ys. g (Arr1 (map Flt (x_vals L))) = Inr (Arr1 ys) \<and> clamped_entries ys (py p)"
    if "integral_points r = Some p" for p
  proof -
    from ser that have "list_all json_number (py p)" by (simp add: serializable_def)
    with that ip show ?thesis by (simp add: clamped_try_points)
  qed
  have three: "\<exists>lower upper d ys.
                 definite_integral L fn x (lower_limit data) (upper_limit data)
                   = Inr (lower, upper, d) \<and>
                 f (Arr1 (map Flt (linspace L lower upper 100))) = Inr (Arr1 ys) \<and>
                 clamped_entries ys (py p)"
    if "area_points r = Some p" for p
  proof -
    from ser that have js: "list_all json_number (py p)" by (simp add: serializable_def)
    from that ap definite_part_cases [of L f fn x "lower_limit data" "upper_limit data"]
    obtain lower upper d where
      di: "definite_integral L fn x (lower_limit data) (upper_limit data)
             = Inr (lower, upper, d)" and
      tp: "try_points f (linspace L lower upper 100) = Some p"
      by auto
    from clamped_try_points [OF tp js] di show ?thesis by blast
  qed
  from prep one two three show ?thesis by blast
qed

theorem clamp_law_witness:
  "success (calculate table (Dict req_steep)) \<and>
   (\<exists>p ys. field function_points (calculate table (Dict req_steep)) = Some p \<and>
      f_steep (Arr1 (map Flt (x_vals table))) = Inr (Arr1 ys) \<and>
      length (py p) = 200 \<and>
      ys ! 199 = Flt (Finite 2000000) \<and> py p ! 199 = None \<and>
      ys ! 100 = Flt (Finite (2000000 / 199)) \<and>
      py p ! 100 = Some (Flt (Finite (2000000 / 199))))"
proof -
  let ?r = "\<lparr>integral = ''100000 x^{2}'', integral_text = ''100000*x**2'',
        function_points = try_points f_steep (x_vals table),
        integral_points = try_points g_steep (x_vals table),
        definite_value = None, area_points = None\<rparr>"
  obtain p where p: "function_points ?r = Some p"
    by (simp add: f_steep_def try_points_vectorized)
  from clamp_law [OF calculate_steep] obtain x fn integ f g where
    prep: "prepared table req_steep x fn integ f g (integral ?r) (integral_text ?r)" and
    law: "\<forall>p. function_points ?r = Some p \<longrightarrow>
            (\<exists>ys. f (Arr1 (map Flt (x_vals table))) = Inr (Arr1 ys) \<and>
                  clamped_entries ys (py p))"
    by blast
  from prepared_unique [OF prepared_steep prep] have f: "f = f_steep" by simp
  from law p f obtain ys where
    ev: "f_steep (Arr1 (map Flt (x_vals table))) = Inr (Arr1 ys)" and
    ce: "clamped_entries ys (py p)"
    by blast
  from steep_values [OF ev] have
    len: "length ys = 200" and
    top: "ys ! 199 = Flt (Finite 2000000)" and
    mid: "ys ! 100 = Flt (Finite (2000000 / 199))"
    by simp_all
  from ce len have lpy: "length (py p) = 200" by (simp add: clamped_entries_def)
  from ce len top have ptop: "py p ! 199 = None"
    unfolding clamped_entries_def by (auto dest!: spec [of _ 199])
  from ce len mid have pmid: "py p ! 100 = Some (Flt (Finite (2000000 / 199)))"
    unfolding clamped_entries_def by (auto dest!: spec [of _ 100])
  from p ev lpy top ptop mid pmid show ?thesis
    unfolding calculate_steep by auto
qed

subsection \<open>The sampling grid\<close>

text \<open>
  The grid of line 98 is \<^verbatim>\<open>np.linspace(-10, 10, 200)\<close>: in a success response, each of
  \<open>function_points\<close> and \<open>integral_points\<close> that is present has the sanitized grid as its
  \<open>x\<close> list, of 200 points, and a \<open>y\<close> list of 200 points (of the libraries only the
  shapes are assumed). For \<^verbatim>\<open>x**2\<close> both series are present.
\<close>

lemma sampling_grid:
  assumes "calculate L req = (c, Success r)"
      and "elementwise L"
      and "sel = function_points \<or> sel = integral_points"
      and "sel r = Some p"
  shows "px p = map (\<lambda>v. clean_elem (Flt v)) (linspace L (Finite (- 10)) (Finite 10) 200) \<and>
         length (px p) = 200 \<and> length (py p) = 200"
proof -
  from assms(1) obtain data where br: "build_response L data = Inr r"
    unfolding calculate_Success_iff by blast
  from build_response_InrD [OF br] obtain x fn integ f g where
    prep: "prepared L data x fn integ f g (integral r) (integral_text r)" and
    fp: "function_points r = try_points f (x_vals L)" and
    ip: "integral_points r = try_points g (x_vals L)"
    by blast
  from prep have lam: "lambdify L x fn = Inr f" "lambdify L x integ = Inr g"
    by (simp_all add: prepared_def)
  from assms(3,4) fp ip obtain h e where
    h: "lambdify L x e = Inr h" and tp: "try_points h (x_vals L) = Some p"
    using lam by metis
  from tp obtain ys where
    ev: "h (Arr1 (map Flt (x_vals L))) = Inr (Arr1 ys)" and
    p: "p = \<lparr>px = map clean_elem (map Flt (x_vals L)),
              py = map (\<lambda>s. clean_elem (clamp_elem s)) ys\<rparr>"
    unfolding try_points_Some_iff by blast
  from assms(2) have len: "length (x_vals L) = 200"
    by (simp add: elementwise_def x_vals_def)
  from assms(2) h ev have "length ys = length (map Flt (x_vals L))"
    unfolding elementwise_def by blast
  with len p show ?thesis by (simp add: x_vals_def comp_def)
qed

lemma sampling_grid_square:
  "calculate table (Dict req_square) =
     (200, Success \<lparr>integral = backslash # ''frac{x^{3}}{3}'', integral_text = ''x**3/3'',
        function_points = try_points f_square (x_vals table),
        integral_points = try_points g_square (x_vals table),
        definite_value = None, area_points = None\<rparr>) \<and>
   (\<exists>p q. try_points f_square (x_vals table) = Some p \<and>
      try_points g_square (x_vals table) = Some q \<and>
      length (px p) = 200 \<and> length (py p) = 200 \<and>
      length (px q) = 200 \<and> length (py q) = 200 \<and>
      px p ! 0 = Some (Flt (Finite (- 10))) \<and> px p ! 199 = Some (Flt (Finite 10)) \<and>
      py p ! 0 = Some (Flt (Finite 100)) \<and> py q ! 199 = Some (Flt (Finite (1000 / 3))))"
proof -
  let ?r = "\<lparr>integral = backslash # ''frac{x^{3}}{3}'', integral_text = ''x**3/3'',
        function_points = try_points f_square (x_vals table),
        integral_points = try_points g_square (x_vals table),
        definite_value = None, area_points = None\<rparr>"
  have calc: "calculate table (Dict req_square) = (200, Success ?r)"
    unfolding calculate_prepared [OF prepared_square real_valued_functions(5,6)]
    by (simp add: definite_part_def req_square_def request_defs)
  obtain p where p: "function_points ?r = Some p"
    by (simp add: f_square_def try_points_vectorized)
  obtain q where q: "integral_points ?r = Some q"
    by (simp add: g_square_def try_points_vectorized)
  have "px p = map (\<lambda>v. clean_elem (Flt v)) (linspace table (Finite (- 10)) (Finite 10) 200) \<and>
        length (px p) = 200 \<and> length (py p) = 200"
    by (rule sampling_grid [where sel = function_points, OF calc elementwise_table _ p]) simp
  then have lp: "length (px p) = 200 \<and> length (py p) = 200"
    by blast
  have "px q = map (\<lambda>v. clean_elem (Flt v)) (linspace table (Finite (- 10)) (Finite 10) 200) \<and>
        length (px q) = 200 \<and> length (py q) = 200"
    by (rule sampling_grid [where sel = integral_points, OF calc elementwise_table _ q]) simp
  then have lq: "length (px q) = 200 \<and> length (py q) = 200"
    by blast
  have vp: "px p ! 0 = Some (Flt (Finite (- 10))) \<and> px p ! 199 = Some (Flt (Finite 10)) \<and>
            py p ! 0 = Some (Flt (Finite 100))"
    using p by (auto simp: f_square_def try_points_vectorized x_vals_def table_def
        length_table_linspace table_linspace_nth clamp_elem_def)
  have vq: "py q ! 199 = Some (Flt (Finite (1000 / 3)))"
    using q by (auto simp: g_square_def try_points_vectorized x_vals_def table_def
        length_table_linspace table_linspace_nth clamp_elem_def)
  from calc p q lp lq vp vq show ?thesis by simp
qed

text \<open>
  Claim C5: every successful request has its function series and its antiderivative
  series sampled at the 200 points of \<^verbatim>\<open>np.linspace(-10, 10, 200)\<close>. The code breaks it
  for a constant expression, which is a valid input: for \<^verbatim>\<open>5\<close>, the lambdified function
  returns the bare number 5 and not an array, \<^verbatim>\<open>clean_array_for_json\<close> raises on it
  inside the inner \<^verbatim>\<open>try\<close>, and the response is a success whose \<open>function_points\<close> is
  null, while \<open>integral_points\<close> (of \<^verbatim>\<open>5*x\<close>) is present.
\<close>

theorem constant_function_points_absent:
  "function_str req_five = JStr ''5'' \<and>
   f_constant (Arr1 (map Flt (x_vals table))) = Inr (Arr0 (Flt (Finite 5))) \<and>
   success (calculate table (Dict req_five)) \<and>
   field function_points (calculate table (Dict req_five)) = None \<and>
   field integral_points (calculate table (Dict req_five))
     = try_points g_constant (x_vals table) \<and>
   try_points g_constant (x_vals table) \<noteq> None"
  unfolding calculate_five
  by (simp add: req_five_def request_defs f_constant_def const_fn_def g_constant_def
      try_points_vectorized)

subsection \<open>Failures of the request\<close>

text \<open>
  Claim C7. When constructing the symbol, parsing the expression or computing the
  antiderivative raises, the response is \<^verbatim>\<open>{success: false, error: str(e)}\<close> for the
  exception \<open>e\<close> raised, with status 200; for the malformed expression \<^verbatim>\<open>x**\<close>, which the
  parser rejects, the response is a failure with the parser's message.
\<close>

theorem setup_failure_response:
  "(symbol L (variable_str data) = Inl e \<longrightarrow>
      calculate L (Dict data) = (200, Failure (message e))) \<and>
   (symbol L (variable_str data) = Inr x \<and>
    parse_expr L (function_str data) (variable_str data) x = Inl e \<longrightarrow>
      calculate L (Dict data) = (200, Failure (message e))) \<and>
   (symbol L (variable_str data) = Inr x \<and>
    parse_expr L (function_str data) (variable_str data) x = Inr fn \<and>
    integrate L fn x = Inl e \<longrightarrow>
      calculate L (Dict data) = (200, Failure (message e)))"
  by (simp add: calculate_Dict build_response_def)

theorem setup_failure_response_witness:
  "symbol table (variable_str req_malformed) = Inr ''x'' \<and>
   parse_expr table (function_str req_malformed) (variable_str req_malformed) ''x''
     = Inl (Exn ''invalid syntax (<string>, line 1)'') \<and>
   calculate table (Dict req_malformed) = (200, Failure ''invalid syntax (<string>, line 1)'') \<and>
   status (calculate table (Dict req_malformed)) = 200 \<and>
   \<not> success (calculate table (Dict req_malformed))"
proof -
  have s: "symbol table (variable_str req_malformed) = Inr ''x''"
    by (simp add: req_malformed_def request_defs table_defs)
  have p: "parse_expr table (function_str req_malformed) (variable_str req_malformed) ''x''
     = Inl (Exn ''invalid syntax (<string>, line 1)'')"
    by (simp add: req_malformed_def request_defs table_defs)
  from setup_failure_response [of table req_malformed
      "Exn ''invalid syntax (<string>, line 1)''" "''x''"] s p
  have "calculate table (Dict req_malformed)
          = (200, Failure ''invalid syntax (<string>, line 1)'')"
    by simp
  with s p show ?thesis by simp
qed

text \<open>
  Claim C10. A request that omits \<^verbatim>\<open>function\<close>, or gives it as the empty string, has the
  expression text \<^verbatim>\<open>''\<close>; when the parser rejects the empty text (and the exceptions
  involved carry a message), the response is a failure with a non-empty error.
\<close>

theorem missing_function_fails:
  assumes "data ''function'' = None \<or> data ''function'' = Some (JStr '''')"
      and "\<forall>x. \<exists>e. parse_expr L (JStr '''') (variable_str data) x = Inl e \<and> message e \<noteq> ''''"
      and "\<forall>e. symbol L (variable_str data) = Inl e \<longrightarrow> message e \<noteq> ''''"
  shows "function_str data = JStr '''' \<and>
         \<not> success (calculate L (Dict data)) \<and>
         (\<exists>m. error (calculate L (Dict data)) = Some m \<and> m \<noteq> '''')"
proof -
  from assms(1) have fs: "function_str data = JStr ''''"
    by (auto simp: function_str_def dict_get_def)
  show ?thesis
  proof (cases "symbol L (variable_str data)")
    case (Inl e)
    with assms(3) have "message e \<noteq> ''''" by blast
    with Inl fs show ?thesis
      by (simp add: calculate_Dict build_response_def)
  next
    case (Inr x)
    from assms(2) obtain e where
      "parse_expr L (JStr '''') (variable_str data) x = Inl e" and "message e \<noteq> ''''"
      by blast
    with Inr fs show ?thesis
      by (simp add: calculate_Dict build_response_def)
  qed
qed

theorem missing_function_fails_witness:
  "req_no_function ''function'' = None \<and>
   function_str req_no_function = JStr '''' \<and>
   \<not> success (calculate table (Dict req_no_function)) \<and>
   error (calculate table (Dict req_no_function)) = Some ''invalid syntax (<string>, line 0)''"
proof -
  have a: "req_no_function ''function'' = None \<or> req_no_function ''function'' = Some (JStr '''')"
    by (simp add: req_no_function_def)
  have b: "\<forall>x. \<exists>e. parse_expr table (JStr '''') (variable_str req_no_function) x = Inl e
             \<and> message e \<noteq> ''''"
    by (simp add: table_defs)
  have c: "\<forall>e. symbol table (variable_str req_no_function) = Inl e \<longrightarrow> message e \<noteq> ''''"
    by (simp add: req_no_function_def request_defs table_defs)
  have "error (calculate table (Dict req_no_function)) = Some ''invalid syntax (<string>, line 0)''"
    by (simp add: calculate_Dict build_response_def req_no_function_def request_defs table_defs)
  with missing_function_fails [OF a b c] show ?thesis
    by (simp add: req_no_function_def)
qed

subsection \<open>Failures of a series\<close>

lemma sample_points_raises: "f (Arr1 (map Flt xs)) = Inl e \<Longrightarrow> sample_points f xs = Inl e"
  by (simp add: sample_points_def)

lemma sample_points_scalar:
  "f (Arr1 (map Flt xs)) = Inr (Arr0 s) \<Longrightarrow> \<exists>e. sample_points f xs = Inl e"
  by (cases s) (simp_all add: sample_points_def clamp_elem_def)

lemma prepared_imaginary:
  "prepared table req_imaginary ''x'' ''I'' ''I*x'' f_imaginary g_imaginary ''i x'' ''I*x''"
  by (simp add: prepared_def req_imaginary_def request_defs table_defs)

lemma length_x_vals_table: "length (x_vals table) = 200"
  by (simp add: x_vals_def table_def length_table_linspace)

lemma integral_points_imaginary:
  "\<not> json_points (try_points g_imaginary (x_vals table))"
proof -
  obtain v vs where xs: "x_vals table = v # vs"
    using length_x_vals_table by (cases "x_vals table") auto
  have "try_points g_imaginary (x_vals table) =
          Some \<lparr>px = map clean_elem (map Flt (x_vals table)),
                py = map (\<lambda>s. clean_elem (clamp_elem s)) (map times_i (map Flt (x_vals table)))\<rparr>"
    unfolding try_points_Some_iff by (simp add: list_all_iff)
  moreover have "\<not> json_number (clean_elem (clamp_elem (times_i (Flt v))))"
    by (cases v) (simp_all add: clamp_elem_def)
  ultimately show ?thesis using xs by simp
qed

text \<open>
  Claim C6: when the numeric evaluation of a series raises, the corresponding field is
  null as a whole and the response still reports success. The code breaks the second
  part for the expression \<^verbatim>\<open>I\<close>: the evaluation of the function series raises (the
  lambdified constant returns the bare \<^verbatim>\<open>1j\<close>, which is not iterable) and the series is
  dropped, but the series of the antiderivative \<^verbatim>\<open>I*x\<close> is complex,
  \<^verbatim>\<open>clean_array_for_json\<close> lets complex numbers through, and \<^verbatim>\<open>jsonify\<close> raises on
  them inside the outer \<^verbatim>\<open>try\<close>: the response is a failure.
\<close>

theorem series_failure_counterexample:
  "sample_points f_imaginary (x_vals table)
     = Inl (Exn (quoted ''complex'' @ '' object is not iterable'')) \<and>
   \<not> success (calculate table (Dict req_imaginary)) \<and>
   error (calculate table (Dict req_imaginary))
     = Some ''Object of type complex is not JSON serializable''"
proof -
  have "sample_points f_imaginary (x_vals table)
          = Inl (Exn (quoted ''complex'' @ '' object is not iterable''))"
    by (simp add: sample_points_def f_imaginary_def clamp_elem_def)
  moreover have "calculate table (Dict req_imaginary)
      = (200, Failure ''Object of type complex is not JSON serializable'')"
    unfolding calculate_Dict build_response_prepared [OF prepared_imaginary]
    using integral_points_imaginary by (simp add: serializable_def)
  ultimately show ?thesis by simp
qed

text \<open>
  What the inner \<^verbatim>\<open>try\<close> blocks do when every call outside them returns and both
  lambdified functions are real-valued: a series whose construction raises is null and the
  response is a success; a series that is present holds one entry for every evaluated
  value.
\<close>

lemma series_failure_is_local:
  assumes "prepared L data x fn integ f g ltx txt"
      and "real_valued f" and "real_valued g"
  shows "(\<forall>e. sample_points f (x_vals L) = Inl e \<longrightarrow>
            success (calculate L (Dict data)) \<and>
            field function_points (calculate L (Dict data)) = None) \<and>
         (\<forall>e. sample_points g (x_vals L) = Inl e \<longrightarrow>
            success (calculate L (Dict data)) \<and>
            field integral_points (calculate L (Dict data)) = None) \<and>
         (\<forall>p. field function_points (calculate L (Dict data)) = Some p \<longrightarrow>
            (\<exists>ys. f (Arr1 (map Flt (x_vals L))) = Inr (Arr1 ys) \<and> length (py p) = length ys)) \<and>
         (\<forall>p. field integral_points (calculate L (Dict data)) = Some p \<longrightarrow>
            (\<exists>ys. g (Arr1 (map Flt (x_vals L))) = Inr (Arr1 ys) \<and> length (py p) = length ys))"
  unfolding calculate_prepared [OF assms]
  by (auto simp: try_points_Some_iff try_points_None_iff)

subsection \<open>The definite integral\<close>

lemma definite_integral_Inl_iff:
  "definite_integral L fn x lo up = Inl e \<longleftrightarrow>
     float_of_json L lo = Inl e \<or>
     (\<exists>lower. float_of_json L lo = Inr lower \<and>
        (float_of_json L up = Inl e \<or>
         (\<exists>upper. float_of_json L up = Inr upper \<and>
            (integrate_between L fn x lower upper = Inl e \<or>
             (\<exists>v. integrate_between L fn x lower upper = Inr v \<and> float_of_expr L v = Inl e)))))"
  by (auto simp: definite_integral_def split: sum.splits)

lemma definite_integral_Inr_iff:
  "definite_integral L fn x lo up = Inr (lower, upper, d) \<longleftrightarrow>
     float_of_json L lo = Inr lower \<and> float_of_json L up = Inr upper \<and>
     (\<exists>v. integrate_between L fn x lower upper = Inr v \<and> float_of_expr L v = Inr d)"
  by (auto simp: definite_integral_def split: sum.splits)

lemma without_limits:
  "variable_str (data(''lower_limit'' := None, ''upper_limit'' := None)) = variable_str data"
  "function_str (data(''lower_limit'' := None, ''upper_limit'' := None)) = function_str data"
  "lower_limit (data(''lower_limit'' := None, ''upper_limit'' := None)) = JNull"
  "upper_limit (data(''lower_limit'' := None, ''upper_limit'' := None)) = JNull"
  by (simp_all add: request_defs)

lemma definite_part_raises:
  "definite_integral L fn x lo up = Inl e \<Longrightarrow> definite_part L f fn x lo up = (None, None)"
  by (simp add: definite_part_def)

lemma definite_part_no_limits: "definite_part L f fn x JNull JNull = (None, None)"
  by (simp add: definite_part_def)

text \<open>
  Claim C1: with both bounds supplied, when the bounds do not parse or the definite
  integral does not evaluate to a real number, a symbolic infinity included, then
  \<open>definite_value\<close> and \<open>area_points\<close> are both null and the response is a success. The
  code breaks it for a symbolic infinity: line 153 relies on \<^verbatim>\<open>float\<close> raising, and
  \<^verbatim>\<open>float(oo)\<close> is the float \<^verbatim>\<open>inf\<close>. For \<^verbatim>\<open>1/x**2\<close> between 0 and 1 the response has
  \<open>definite_value\<close> \<^verbatim>\<open>inf\<close>, and \<open>area_points\<close> is present.
\<close>

theorem infinite_definite_value_counterexample:
  "lower_limit req_pole \<noteq> JNull \<and> upper_limit req_pole \<noteq> JNull \<and>
   float_of_json table (lower_limit req_pole) = Inr (Finite 0) \<and>
   float_of_json table (upper_limit req_pole) = Inr (Finite 1) \<and>
   integrate_between table ''x**(-2)'' ''x'' (Finite 0) (Finite 1) = Inr ''oo'' \<and>
   float_of_expr table ''oo'' = Inr PosInf \<and>
   success (calculate table (Dict req_pole)) \<and>
   field definite_value (calculate table (Dict req_pole)) = Some PosInf \<and>
   field area_points (calculate table (Dict req_pole)) \<noteq> None"
  unfolding calculate_pole
  by (simp add: limits_supplied req_pole_def request_defs table_defs f_pole_def
      try_points_vectorized)

text \<open>
  When \<^verbatim>\<open>float\<close> of a bound, the definite integration or \<^verbatim>\<open>float\<close> of its value raises
  (lemma \<open>definite_integral_Inl_iff\<close>), \<open>definite_value\<close> and \<open>area_points\<close> are both null
  and the response is the one of the same request without bounds.
\<close>

lemma definite_failure_is_swallowed:
  assumes "symbol L (variable_str data) = Inr x"
      and "parse_expr L (function_str data) (variable_str data) x = Inr fn"
      and "lower_limit data \<noteq> JNull" and "upper_limit data \<noteq> JNull"
      and "definite_integral L fn x (lower_limit data) (upper_limit data) = Inl e"
  shows "field definite_value (calculate L (Dict data)) = None \<and>
         field area_points (calculate L (Dict data)) = None \<and>
         calculate L (Dict data)
           = calculate L (Dict (data(''lower_limit'' := None, ''upper_limit'' := None))) \<and>
         (\<forall>integ f g ltx txt.
            prepared L data x fn integ f g ltx txt \<and> real_valued f \<and> real_valued g
              \<longrightarrow> success (calculate L (Dict data)))"
proof -
  have dp: "definite_part L f fn x (lower_limit data) (upper_limit data) = (None, None)" for f
    by (rule definite_part_raises [OF assms(5)])
  have eq: "build_response L data
              = build_response L (data(''lower_limit'' := None, ''upper_limit'' := None))"
    unfolding build_response_def without_limits
    using assms(1,2) by (simp add: dp definite_part_no_limits cong: sum.case_cong)
  have none: "definite_value r = None \<and> area_points r = None"
    if "build_response L data = Inr r" for r
  proof -
    from build_response_InrD [OF that] obtain x' fn' integ f g where
      prep: "prepared L data x' fn' integ f g (integral r) (integral_text r)" and
      dv: "definite_value r
             = fst (definite_part L f fn' x' (lower_limit data) (upper_limit data))" and
      ap: "area_points r
             = snd (definite_part L f fn' x' (lower_limit data) (upper_limit data))"
      by blast
    from prep assms(1,2) have "x' = x" "fn' = fn" by (simp_all add: prepared_def)
    with dv ap dp show ?thesis by simp
  qed
  have fields: "field definite_value (calculate L (Dict data)) = None \<and>
         field area_points (calculate L (Dict data)) = None"
    unfolding calculate_Dict using none by (auto split: sum.splits)
  have same: "calculate L (Dict data)
           = calculate L (Dict (data(''lower_limit'' := None, ''upper_limit'' := None)))"
    unfolding calculate_Dict eq by (rule refl)
  have ok: "success (calculate L (Dict data))"
    if "prepared L data x fn integ f g ltx plain" "real_valued f" "real_valued g"
    for integ f g ltx plain
    unfolding calculate_prepared [OF that] by simp
  from fields same ok show ?thesis by blast
qed

lemma definite_failure_bad_bound:
  "lower_limit req_bad_bound \<noteq> JNull \<and> upper_limit req_bad_bound \<noteq> JNull \<and>
   float_of_json table (lower_limit req_bad_bound)
     = Inl (Exn (''could not convert string to float: '' @ quoted ''a'')) \<and>
   success (calculate table (Dict req_bad_bound)) \<and>
   field definite_value (calculate table (Dict req_bad_bound)) = None \<and>
   field area_points (calculate table (Dict req_bad_bound)) = None \<and>
   field function_points (calculate table (Dict req_bad_bound))
     = Some \<lparr>px = map clean_elem (map Flt (x_vals table)),
             py = map (\<lambda>s. clean_elem (clamp_elem s))
                    (map (\<lambda>v. Flt (lift (\<lambda>r. Finite (2 * r + 3)) PosInf NegInf v))
                       (x_vals table))\<rparr>"
proof -
  have s: "symbol table (variable_str req_bad_bound) = Inr ''x''"
    and p: "parse_expr table (function_str req_bad_bound) (variable_str req_bad_bound) ''x''
              = Inr ''2*x + 3''"
    using prepared_bad_bound by (simp_all add: prepared_def)
  have fl: "float_of_json table (lower_limit req_bad_bound)
     = Inl (Exn (''could not convert string to float: '' @ quoted ''a''))"
    by (simp add: req_bad_bound_def request_defs table_defs)
  note swallowed = definite_failure_is_swallowed
    [OF s p limits_supplied(5,6) definite_integral_bad_bound]
  from swallowed prepared_bad_bound real_valued_functions(3,4)
  have ok: "success (calculate table (Dict req_bad_bound))" by blast
  have fp: "field function_points (calculate table (Dict req_bad_bound))
     = Some \<lparr>px = map clean_elem (map Flt (x_vals table)),
             py = map (\<lambda>s. clean_elem (clamp_elem s))
                    (map (\<lambda>v. Flt (lift (\<lambda>r. Finite (2 * r + 3)) PosInf NegInf v))
                       (x_vals table))\<rparr>"
    unfolding calculate_prepared [OF prepared_bad_bound real_valued_functions(3,4)]
    by (simp add: f_linear_def try_points_vectorized)
  from swallowed ok fl fp limits_supplied(5,6) show ?thesis by blast
qed

text \<open>
  Claim C2: when both bounds parse and the definite integral evaluates, \<open>definite_value\<close>
  is its value and \<open>area_points\<close> holds 100 points over the interval, evaluated and clamped
  as the other series. The code breaks the second part for a constant integrand, which is
  a valid input: for \<^verbatim>\<open>5\<close> between 0 and 2 the definite integral is 10, the lambdified
  function returns the bare number 5, \<^verbatim>\<open>clean_array_for_json\<close> raises on it at line 162
  after \<open>definite_value\<close> has been assigned, and the response has \<open>definite_value\<close> 10 and
  \<open>area_points\<close> null.
\<close>

theorem constant_area_counterexample:
  "lower_limit req_constant \<noteq> JNull \<and> upper_limit req_constant \<noteq> JNull \<and>
   float_of_json table (lower_limit req_constant) = Inr (Finite 0) \<and>
   float_of_json table (upper_limit req_constant) = Inr (Finite 2) \<and>
   integrate_between table ''5'' ''x'' (Finite 0) (Finite 2) = Inr ''10.0000000000000'' \<and>
   float_of_expr table ''10.0000000000000'' = Inr (Finite 10) \<and>
   success (calculate table (Dict req_constant)) \<and>
   field definite_value (calculate table (Dict req_constant)) = Some (Finite 10) \<and>
   field area_points (calculate table (Dict req_constant)) = None"
  unfolding calculate_constant
  by (simp add: limits_supplied req_constant_def request_defs table_defs)

text \<open>
  For an integrand that evaluates to an array: \<open>definite_value\<close> is the float of the
  definite integral, and \<open>area_points\<close>, when present, is the lambdified expression on
  \<^verbatim>\<open>np.linspace(lower, upper, 100)\<close>, clamped and sanitized.
\<close>

lemma definite_value_and_area:
  assumes "calculate L (Dict data) = (c, Success r)"
      and "elementwise L"
      and "symbol L (variable_str data) = Inr x"
      and "parse_expr L (function_str data) (variable_str data) x = Inr fn"
      and "lower_limit data \<noteq> JNull" and "upper_limit data \<noteq> JNull"
      and "float_of_json L (lower_limit data) = Inr lower"
      and "float_of_json L (upper_limit data) = Inr upper"
      and "integrate_between L fn x lower upper = Inr v"
      and "float_of_expr L v = Inr d"
  shows "definite_value r = Some d \<and>
         (\<forall>p. area_points r = Some p \<longrightarrow>
            px p = map (\<lambda>v. clean_elem (Flt v)) (linspace L lower upper 100) \<and>
            length (px p) = 100 \<and> length (py p) = 100 \<and>
            (\<exists>f ys. lambdify L x fn = Inr f \<and>
               f (Arr1 (map Flt (linspace L lower upper 100))) = Inr (Arr1 ys) \<and>
               py p = map (\<lambda>s. clean_elem (clamp_elem s)) ys)) \<and>
         (\<forall>f ys. lambdify L x fn = Inr f \<and>
            f (Arr1 (map Flt (linspace L lower upper 100))) = Inr (Arr1 ys)
              \<longrightarrow> area_points r \<noteq> None)"
proof -
  from assms(1) have br: "build_response L data = Inr r"
    unfolding calculate_Success_iff by blast
  from build_response_InrD [OF br] obtain x' fn' integ f g where
    prep: "prepared L data x' fn' integ f g (integral r) (integral_text r)" and
    dv: "definite_value r
           = fst (definite_part L f fn' x' (lower_limit data) (upper_limit data))" and
    ap: "area_points r
           = snd (definite_part L f fn' x' (lower_limit data) (upper_limit data))"
    by blast
  from prep assms(3,4) have same: "x' = x" "fn' = fn" by (simp_all add: prepared_def)
  from prep same have lam: "lambdify L x fn = Inr f" by (simp add: prepared_def)
  have di: "definite_integral L fn x (lower_limit data) (upper_limit data)
              = Inr (lower, upper, d)"
    unfolding definite_integral_Inr_iff using assms(7-10) by blast
  have dp: "definite_part L f fn x (lower_limit data) (upper_limit data)
              = (Some d, try_points f (linspace L lower upper 100))"
    using assms(5,6) di by (simp add: definite_part_def)
  from dv dp same have dval: "definite_value r = Some d" by simp
  from ap dp same have area: "area_points r = try_points f (linspace L lower upper 100)"
    by simp
  from assms(2) have len: "length (linspace L lower upper 100) = 100"
    by (simp add: elementwise_def)
  have present: "px p = map (\<lambda>v. clean_elem (Flt v)) (linspace L lower upper 100) \<and>
            length (px p) = 100 \<and> length (py p) = 100 \<and>
            (\<exists>f ys. lambdify L x fn = Inr f \<and>
               f (Arr1 (map Flt (linspace L lower upper 100))) = Inr (Arr1 ys) \<and>
               py p = map (\<lambda>s. clean_elem (clamp_elem s)) ys)"
    if "area_points r = Some p" for p
  proof -
    from that area have "try_points f (linspace L lower upper 100) = Some p"
      by simp
    then obtain ys where
      ev: "f (Arr1 (map Flt (linspace L lower upper 100))) = Inr (Arr1 ys)" and
      p: "p = \<lparr>px = map clean_elem (map Flt (linspace L lower upper 100)),
                py = map (\<lambda>s. clean_elem (clamp_elem s)) ys\<rparr>"
      unfolding try_points_Some_iff by blast
    from assms(2) lam ev have "length ys = length (map Flt (linspace L lower upper 100))"
      unfolding elementwise_def by blast
    with len p lam ev show ?thesis by (auto simp: comp_def)
  qed
  have evaluated: "area_points r \<noteq> None"
    if "lambdify L x fn = Inr h"
       "h (Arr1 (map Flt (linspace L lower upper 100))) = Inr (Arr1 ys)" for h ys
  proof -
    from that(1) lam have "h = f" by simp
    with that(2) area show ?thesis by (simp add: try_points_Some_iff)
  qed
  from dval present evaluated show ?thesis by blast
qed

lemma definite_value_and_area_linear:
  "success (calculate table (Dict req_linear)) \<and>
   field definite_value (calculate table (Dict req_linear)) = Some (Finite 10) \<and>
   (\<exists>p. field area_points (calculate table (Dict req_linear)) = Some p \<and>
      length (px p) = 100 \<and> length (py p) = 100 \<and>
      px p ! 0 = Some (Flt (Finite 0)) \<and> px p ! 99 = Some (Flt (Finite 2)) \<and>
      py p ! 0 = Some (Flt (Finite 3)) \<and> py p ! 99 = Some (Flt (Finite 7)))"
proof -
  let ?r = "\<lparr>integral = ''x^{2} + 3 x'', integral_text = ''x**2 + 3*x'',
        function_points = try_points f_linear (x_vals table),
        integral_points = try_points g_linear (x_vals table),
        definite_value = Some (Finite 10),
        area_points = try_points f_linear (linspace table (Finite 0) (Finite 2) 100)\<rparr>"
  have s: "symbol table (variable_str req_linear) = Inr ''x''"
    and p: "parse_expr table (function_str req_linear) (variable_str req_linear) ''x''
              = Inr ''2*x + 3''"
    using prepared_linear by (simp_all add: prepared_def)
  have lo: "float_of_json table (lower_limit req_linear) = Inr (Finite 0)"
    and up: "float_of_json table (upper_limit req_linear) = Inr (Finite 2)"
    and ib: "integrate_between table ''2*x + 3'' ''x'' (Finite 0) (Finite 2)
               = Inr ''10.0000000000000''"
    and fe: "float_of_expr table ''10.0000000000000'' = Inr (Finite 10)"
    by (simp_all add: req_linear_def request_defs table_defs)
  note inst = definite_value_and_area
    [OF calculate_linear elementwise_table s p limits_supplied(3,4) lo up ib fe]
  obtain q where q: "area_points ?r = Some q"
    by (simp add: f_linear_def try_points_vectorized)
  from inst q have shape: "length (px q) = 100 \<and> length (py q) = 100" by blast
  from inst have dv: "definite_value ?r = Some (Finite 10)" by blast
  have vals: "px q ! 0 = Some (Flt (Finite 0)) \<and> px q ! 99 = Some (Flt (Finite 2)) \<and>
      py q ! 0 = Some (Flt (Finite 3)) \<and> py q ! 99 = Some (Flt (Finite 7))"
    using q by (auto simp: f_linear_def try_points_vectorized table_def
        length_table_linspace table_linspace_nth clamp_elem_def)
  from q shape vals show ?thesis
    unfolding calculate_linear by auto
qed

end
